theory Spec2Isabelle
  imports Main
begin

section \<open>Values and errors\<close>

text \<open>
  A YAML document as \<^verbatim>\<open>yaml.safe_load\<close> returns it: \<^verbatim>\<open>None\<close>, a boolean, a number, a
  string, a list or a dict. A dict is kept as the list of its items in file order; its keys
  are strings and distinct. \<open>YInt\<close> stands for every scalar that is neither a string, a
  boolean nor \<^verbatim>\<open>None\<close>: the code never computes with one.
\<close>

datatype yaml =
    YNull
  | YBool bool
  | YInt int
  | YStr string
  | YList "yaml list"
  | YDict "(string \<times> yaml) list"

text \<open>
  The exceptions the code can raise, one constructor per raise site or Python exception
  class. \<open>ValueError_unpack n\<close> is the \<^verbatim>\<open>ValueError\<close> of \<^verbatim>\<open>a, b = xs\<close> when \<open>xs\<close> has
  \<open>n \<noteq> 2\<close> elements.
\<close>

datatype error =
    ValueError_unpack nat
  | ValueError_no_job_for_filename string
  | ValueError_no_job_for_tags "string list"
  | ValueError_invalid_argument_type
  | FileNotFoundError string
  | YAMLError string
  | AttributeError
  | TypeError
  | KeyError string
  | LookupError string
  | ValidationError
  | Exception_asset_not_found string
  | Exception_no_job_name_or_tags
  | Exception_expectations_not_met
  | Exception_ERROR error

subsection \<open>Python operations on loaded values\<close>

text \<open>\<^verbatim>\<open>x.get(k)\<close>: only a dict has the method; a missing key gives \<^verbatim>\<open>None\<close>.\<close>

fun dict_get :: "yaml \<Rightarrow> string \<Rightarrow> error + yaml" where
  "dict_get (YDict kvs) k = Inr (case map_of kvs k of None \<Rightarrow> YNull | Some v \<Rightarrow> v)"
| "dict_get _ k = Inl AttributeError"

text \<open>\<^verbatim>\<open>x[k]\<close> with a string \<open>k\<close>: \<^verbatim>\<open>KeyError\<close> on a dict without the key,
  \<^verbatim>\<open>TypeError\<close> on anything that is not a dict.\<close>

fun subscript :: "yaml \<Rightarrow> string \<Rightarrow> error + yaml" where
  "subscript (YDict kvs) k = (case map_of kvs k of None \<Rightarrow> Inl (KeyError k) | Some v \<Rightarrow> Inr v)"
| "subscript _ k = Inl TypeError"

text \<open>\<^verbatim>\<open>for x in v\<close>: a list gives its elements, a dict its keys, a string its
  characters; nothing else is iterable.\<close>

fun py_iter :: "yaml \<Rightarrow> error + yaml list" where
  "py_iter (YList xs) = Inr xs"
| "py_iter (YDict kvs) = Inr (map (\<lambda>kv. YStr (fst kv)) kvs)"
| "py_iter (YStr s) = Inr (map (\<lambda>c. YStr [c]) s)"
| "py_iter _ = Inl TypeError"

text \<open>Truth value of a loaded document, as \<^verbatim>\<open>if job_data:\<close> tests it.\<close>

fun truthy :: "yaml \<Rightarrow> bool" where
  "truthy YNull = False"
| "truthy (YBool b) = b"
| "truthy (YInt i) = (i \<noteq> 0)"
| "truthy (YStr s) = (s \<noteq> [])"
| "truthy (YList xs) = (xs \<noteq> [])"
| "truthy (YDict kvs) = (kvs \<noteq> [])"

text \<open>\<^verbatim>\<open>s.split(sep)\<close> for a one-character separator: every occurrence splits, empty
  pieces are kept.\<close>

fun py_split :: "char \<Rightarrow> string \<Rightarrow> string list" where
  "py_split sep [] = [[]]"
| "py_split sep (c # cs) =
     (if c = sep then [] # py_split sep cs
      else (case py_split sep cs of [] \<Rightarrow> [[c]] | p # ps \<Rightarrow> (c # p) # ps))"

text \<open>\<^verbatim>\<open>a, b = xs\<close>.\<close>

fun unpack2 :: "string list \<Rightarrow> error + (string \<times> string)" where
  "unpack2 [a, b] = Inr (a, b)"
| "unpack2 xs = Inl (ValueError_unpack (length xs))"

text \<open>\<^verbatim>\<open>s.endswith(suf)\<close>.\<close>

definition endswith :: "string \<Rightarrow> string \<Rightarrow> bool" where
  "endswith s suf = (length suf \<le> length s \<and> drop (length s - length suf) s = suf)"

text \<open>\<^verbatim>\<open>os.path.join(a, *p)\<close> of \<^verbatim>\<open>posixpath\<close>: an absolute component discards what
  came before it; otherwise components are joined with one slash.\<close>

definition join_step :: "string \<Rightarrow> string \<Rightarrow> string" where
  "join_step path b =
     (if b \<noteq> [] \<and> hd b = CHR ''/'' then b
      else if path = [] \<or> last path = CHR ''/'' then path @ b
      else path @ ''/'' @ b)"

definition os_path_join :: "string \<Rightarrow> string list \<Rightarrow> string" where
  "os_path_join a p = foldl join_step a p"

section \<open>Configuration and the file system\<close>

text \<open>\<^verbatim>\<open>core/config.py\<close>: the settings object.\<close>

record config =
  env :: string
  project_path :: string
  microsoft_teams_webhook :: string

text \<open>
  What a file holds: a document that \<^verbatim>\<open>yaml.safe_load\<close> parses to a value (an empty file
  parses to \<^verbatim>\<open>None\<close>), or text that it rejects.
\<close>

datatype content = Doc yaml | Unparsable

text \<open>
  The world outside the process: the settings, the files by path, what \<^verbatim>\<open>os.walk\<close> lists
  under a directory (triples of directory, sub-directory names, file names), and the two
  answers of the validation runtime that the program reads: the assets (name and query) the
  data source holds when it is handed over, and whether a checkpoint run succeeds.
\<close>

record world =
  settings :: config
  files :: "string \<Rightarrow> content option"
  os_walk :: "string \<Rightarrow> (string \<times> string list \<times> string list) list"
  existing_assets :: "(string \<times> string) list"
  checkpoint_success :: bool

text \<open>\<^verbatim>\<open>yaml.safe_load(open(path))\<close>.\<close>

definition safe_load_open :: "world \<Rightarrow> string \<Rightarrow> error + yaml" where
  "safe_load_open w path =
     (case files w path of
        None \<Rightarrow> Inl (FileNotFoundError path)
      | Some Unparsable \<Rightarrow> Inl (YAMLError path)
      | Some (Doc y) \<Rightarrow> Inr y)"

section \<open>Models\<close>

text \<open>\<^verbatim>\<open>models/data_asset.py\<close>, \<^verbatim>\<open>models/suite.py\<close>, \<^verbatim>\<open>models/job.py\<close>. The three
  \<^verbatim>\<open>name\<close> fields carry their class, since record fields share one name space.\<close>

record DataAsset =
  name_DataAsset :: string
  query :: string

record Expectation =
  expectation_type :: string
  kwargs :: "(string \<times> yaml) list"

record Suite =
  name_Suite :: string
  expectations :: "Expectation list"

record Run =
  data_assets :: "DataAsset list"
  suite :: Suite

record Job =
  name_Job :: string
  runs :: "Run list"
  tags :: "string list option"

text \<open>The constructors validate their fields: a \<^verbatim>\<open>StrictStr\<close> field takes a string only,
  \<^verbatim>\<open>dict\<close> a dict only, \<^verbatim>\<open>Optional[List[StrictStr]]\<close> takes \<^verbatim>\<open>None\<close> or a list of
  strings.\<close>

fun new_DataAsset :: "string \<Rightarrow> yaml \<Rightarrow> error + DataAsset" where
  "new_DataAsset n (YStr q) = Inr \<lparr>name_DataAsset = n, query = q\<rparr>"
| "new_DataAsset n _ = Inl ValidationError"

fun new_Expectation :: "yaml \<Rightarrow> yaml \<Rightarrow> error + Expectation" where
  "new_Expectation (YStr t) (YDict kw) = Inr \<lparr>expectation_type = t, kwargs = kw\<rparr>"
| "new_Expectation _ _ = Inl ValidationError"

fun new_Suite :: "yaml \<Rightarrow> Expectation list \<Rightarrow> error + Suite" where
  "new_Suite (YStr n) es = Inr \<lparr>name_Suite = n, expectations = es\<rparr>"
| "new_Suite _ es = Inl ValidationError"

fun strict_strs :: "yaml list \<Rightarrow> string list option" where
  "strict_strs [] = Some []"
| "strict_strs (YStr s # ys) = map_option ((#) s) (strict_strs ys)"
| "strict_strs (_ # ys) = None"

fun new_Job :: "yaml \<Rightarrow> Run list \<Rightarrow> yaml \<Rightarrow> error + Job" where
  "new_Job (YStr n) rs YNull = Inr \<lparr>name_Job = n, runs = rs, tags = None\<rparr>"
| "new_Job (YStr n) rs (YList ts) =
     (case strict_strs ts of
        None \<Rightarrow> Inl ValidationError
      | Some ss \<Rightarrow> Inr \<lparr>name_Job = n, runs = rs, tags = Some ss\<rparr>)"
| "new_Job _ rs _ = Inl ValidationError"

section \<open>Asset and suite selection (\<^verbatim>\<open>utils/selector.py\<close>)\<close>

text \<open>The scan of \<^verbatim>\<open>select_asset\<close>: the first entry whose \<^verbatim>\<open>name\<close> equals the leaf is
  returned under the full name; running off the list raises.\<close>

fun find_asset :: "string \<Rightarrow> string \<Rightarrow> yaml list \<Rightarrow> error + DataAsset" where
  "find_asset fname asset_name [] = Inl (Exception_asset_not_found fname)"
| "find_asset fname asset_name (asset # assets) =
     (case dict_get asset ''name'' of
        Inl e \<Rightarrow> Inl e
      | Inr n \<Rightarrow>
          if n = YStr asset_name then
            (case subscript asset ''query'' of
               Inl e \<Rightarrow> Inl e
             | Inr q \<Rightarrow> new_DataAsset fname q)
          else find_asset fname asset_name assets)"

definition asset_path :: "world \<Rightarrow> string \<Rightarrow> string" where
  "asset_path w tbl_name =
     os_path_join (project_path (settings w)) [''resources/data_assets'', tbl_name @ ''.yml'']"

definition select_asset :: "world \<Rightarrow> string \<Rightarrow> error + DataAsset" where
  "select_asset w fname =
     (case unpack2 (py_split CHR ''.'' fname) of
        Inl e \<Rightarrow> Inl e
      | Inr (tbl_name, asset_name) \<Rightarrow>
          (case safe_load_open w (asset_path w tbl_name) of
             Inl e \<Rightarrow> Inl e
           | Inr doc \<Rightarrow>
               (case subscript doc ''data_assets'' of
                  Inl e \<Rightarrow> Inl e
                | Inr assets \<Rightarrow>
                    (case py_iter assets of
                       Inl e \<Rightarrow> Inl e
                     | Inr xs \<Rightarrow> find_asset fname asset_name xs))))"

text \<open>The loop of \<^verbatim>\<open>select_suite\<close>: each entry, in order, becomes an
  \<^verbatim>\<open>Expectation\<close>; the first failing entry ends the loop.\<close>

fun map_expectations :: "yaml list \<Rightarrow> error + Expectation list" where
  "map_expectations [] = Inr []"
| "map_expectations (x # xs) =
     (case subscript x ''expectation_type'' of
        Inl e \<Rightarrow> Inl e
      | Inr t \<Rightarrow>
          (case subscript x ''kwargs'' of
             Inl e \<Rightarrow> Inl e
           | Inr k \<Rightarrow>
               (case new_Expectation t k of
                  Inl e \<Rightarrow> Inl e
                | Inr ex \<Rightarrow>
                    (case map_expectations xs of
                       Inl e \<Rightarrow> Inl e
                     | Inr rest \<Rightarrow> Inr (ex # rest)))))"

definition suite_path :: "world \<Rightarrow> string \<Rightarrow> string" where
  "suite_path w sname =
     os_path_join (project_path (settings w)) [''resources/suites'', sname @ ''.yml'']"

definition select_suite :: "world \<Rightarrow> string \<Rightarrow> error + Suite" where
  "select_suite w sname =
     (case safe_load_open w (suite_path w sname) of
        Inl e \<Rightarrow> Inl e
      | Inr suite_data \<Rightarrow>
          (case dict_get suite_data ''expectations'' of
             Inl e \<Rightarrow> Inl e
           | Inr es \<Rightarrow>
               (case py_iter es of
                  Inl e \<Rightarrow> Inl e
                | Inr xs \<Rightarrow>
                    (case map_expectations xs of
                       Inl e \<Rightarrow> Inl e
                     | Inr exps \<Rightarrow>
                         (case subscript suite_data ''name'' of
                            Inl e \<Rightarrow> Inl e
                          | Inr n \<Rightarrow> new_Suite n exps)))))"

section \<open>Job selection (\<^verbatim>\<open>utils/job_selector_factory.py\<close>)\<close>

text \<open>The inner loop of \<^verbatim>\<open>handle_job_data\<close>: \<^verbatim>\<open>select_asset(data_asset_name)\<close>
  for each name in turn. A name that is not a string has no \<^verbatim>\<open>split\<close>.\<close>

fun select_assets :: "world \<Rightarrow> yaml list \<Rightarrow> error + DataAsset list" where
  "select_assets w [] = Inr []"
| "select_assets w (n # ns) =
     (case (case n of YStr s \<Rightarrow> select_asset w s | _ \<Rightarrow> Inl AttributeError) of
        Inl e \<Rightarrow> Inl e
      | Inr a \<Rightarrow>
          (case select_assets w ns of
             Inl e \<Rightarrow> Inl e
           | Inr rest \<Rightarrow> Inr (a # rest)))"

text \<open>The outer loop: one \<^verbatim>\<open>Run\<close> per run entry, its assets first, then its suite
  (\<^verbatim>\<open>suite_name + ".yml"\<close> needs a string).\<close>

fun build_runs :: "world \<Rightarrow> yaml list \<Rightarrow> error + Run list" where
  "build_runs w [] = Inr []"
| "build_runs w (run # rest) =
     (case subscript run ''data_assets'' of
        Inl e \<Rightarrow> Inl e
      | Inr das \<Rightarrow>
          (case py_iter das of
             Inl e \<Rightarrow> Inl e
           | Inr names \<Rightarrow>
               (case select_assets w names of
                  Inl e \<Rightarrow> Inl e
                | Inr assets \<Rightarrow>
                    (case subscript run ''suite'' of
                       Inl e \<Rightarrow> Inl e
                     | Inr s \<Rightarrow>
                         (case (case s of YStr sn \<Rightarrow> select_suite w sn | _ \<Rightarrow> Inl TypeError) of
                            Inl e \<Rightarrow> Inl e
                          | Inr su \<Rightarrow>
                              (case build_runs w rest of
                                 Inl e \<Rightarrow> Inl e
                               | Inr rs \<Rightarrow> Inr (\<lparr>data_assets = assets, suite = su\<rparr> # rs)))))))"

definition handle_job_data :: "world \<Rightarrow> yaml \<Rightarrow> error + Job" where
  "handle_job_data w job_data =
     (case dict_get job_data ''runs'' of
        Inl e \<Rightarrow> Inl e
      | Inr r \<Rightarrow>
          (case py_iter r of
             Inl e \<Rightarrow> Inl e
           | Inr run_entries \<Rightarrow>
               (case build_runs w run_entries of
                  Inl e \<Rightarrow> Inl e
                | Inr rs \<Rightarrow>
                    (case dict_get job_data ''name'' of
                       Inl e \<Rightarrow> Inl e
                     | Inr n \<Rightarrow>
                         (case dict_get job_data ''tags'' of
                            Inl e \<Rightarrow> Inl e
                          | Inr t \<Rightarrow> new_Job n rs t)))))"

definition job_path :: "world \<Rightarrow> string \<Rightarrow> string \<Rightarrow> string" where
  "job_path w sub_folder jname =
     os_path_join (project_path (settings w)) [''resources/jobs'', sub_folder, jname @ ''.yml'']"

text \<open>\<^verbatim>\<open>_select_job_by_filename\<close>.\<close>

definition select_job_by_filename :: "world \<Rightarrow> string \<Rightarrow> error + Job" where
  "select_job_by_filename w fname =
     (case unpack2 (py_split CHR ''.'' fname) of
        Inl e \<Rightarrow> Inl e
      | Inr (sub_folder, jname) \<Rightarrow>
          (case safe_load_open w (job_path w sub_folder jname) of
             Inl e \<Rightarrow> Inl e
           | Inr job_data \<Rightarrow>
               if truthy job_data then handle_job_data w job_data
               else Inl (ValueError_no_job_for_filename fname)))"

text \<open>\<^verbatim>\<open>all(tag in job.tags for tag in tags)\<close>: the generator is consumed up to the first
  tag that is missing; \<^verbatim>\<open>tag in None\<close> raises.\<close>

fun all_tags_in :: "string list option \<Rightarrow> string list \<Rightarrow> error + bool" where
  "all_tags_in jt [] = Inr True"
| "all_tags_in None (t # ts) = Inl TypeError"
| "all_tags_in (Some jt) (t # ts) =
     (if t \<in> set jt then all_tags_in (Some jt) ts else Inr False)"

text \<open>The two loops of \<^verbatim>\<open>_select_jobs_by_tags\<close>, over the files of one directory and
  over the directories \<^verbatim>\<open>os.walk\<close> yields, with the list \<^verbatim>\<open>jobs\<close> threaded through.\<close>

fun scan_files :: "world \<Rightarrow> string list \<Rightarrow> string \<Rightarrow> string list \<Rightarrow> Job list \<Rightarrow> error + Job list" where
  "scan_files w tgs root [] jobs = Inr jobs"
| "scan_files w tgs root (f # fs) jobs =
     (if endswith f ''.yml'' then
        (case safe_load_open w (os_path_join root [f]) of
           Inl e \<Rightarrow> Inl e
         | Inr job_data \<Rightarrow>
             (case handle_job_data w job_data of
                Inl e \<Rightarrow> Inl e
              | Inr job \<Rightarrow>
                  (case all_tags_in (tags job) tgs of
                     Inl e \<Rightarrow> Inl e
                   | Inr keep \<Rightarrow> scan_files w tgs root fs (if keep then jobs @ [job] else jobs))))
      else scan_files w tgs root fs jobs)"

fun scan_dirs :: "world \<Rightarrow> string list \<Rightarrow> (string \<times> string list \<times> string list) list \<Rightarrow> Job list \<Rightarrow> error + Job list" where
  "scan_dirs w tgs [] jobs = Inr jobs"
| "scan_dirs w tgs ((root, dirs, fs) # rest) jobs =
     (case scan_files w tgs root fs jobs of
        Inl e \<Rightarrow> Inl e
      | Inr jobs' \<Rightarrow> scan_dirs w tgs rest jobs')"

definition jobs_dir :: "world \<Rightarrow> string" where
  "jobs_dir w = os_path_join (project_path (settings w)) [''resources/jobs'']"

text \<open>\<^verbatim>\<open>_select_jobs_by_tags\<close>.\<close>

definition select_jobs_by_tags :: "world \<Rightarrow> string list \<Rightarrow> error + Job list" where
  "select_jobs_by_tags w tgs =
     (case scan_dirs w tgs (os_walk w (jobs_dir w)) [] of
        Inl e \<Rightarrow> Inl e
      | Inr jobs \<Rightarrow>
          if length jobs = 0 then Inl (ValueError_no_job_for_tags tgs) else Inr jobs)"

text \<open>\<^verbatim>\<open>select_job\<close> takes a string or a list and returns one job or a list of jobs.\<close>

datatype selector = Str string | Lst "string list" | Other

datatype jobs_arg = OneJob Job | JobList "Job list"

fun select_job :: "world \<Rightarrow> selector \<Rightarrow> error + jobs_arg" where
  "select_job w (Str fname) = map_sum id OneJob (select_job_by_filename w fname)"
| "select_job w (Lst tgs) = map_sum id JobList (select_jobs_by_tags w tgs)"
| "select_job w Other = Inl ValueError_invalid_argument_type"

section \<open>The validation runtime, as the program uses it\<close>

text \<open>
  The runtime is an external library. Its context is modelled by the calls the program
  makes on it, in order; every such call is taken to succeed. Only the data source answers:
  \<^verbatim>\<open>get_asset\<close> raises for a name it does not hold.
\<close>

record query_asset =
  asset_datasource :: yaml
  asset_name :: string
  asset_query :: string

record batch_request =
  datasource_name :: yaml
  data_asset_name :: string

record validation =
  batch_request :: batch_request
  expectation_suite_name :: string

datatype action =
    StoreValidationResultAction
  | StoreEvaluationParametersAction
  | UpdateDataDocsAction
  | MicrosoftTeamsNotificationAction string string

datatype gx_call =
    Get_context string string
  | Add_or_update_postgres yaml yaml
  | Add_or_update_expectation_suite string
  | Add_expectation string Expectation
  | Update_expectation_suite string
  | Add_or_update_checkpoint string "validation list" "action list"
  | Checkpoint_run string

type_synonym gx_context = "gx_call list"

record data_source =
  ds_name :: yaml
  ds_assets :: "(string \<times> string) list"

definition get_asset :: "data_source \<Rightarrow> string \<Rightarrow> error + query_asset" where
  "get_asset ds n =
     (case map_of (ds_assets ds) n of
        None \<Rightarrow> Inl (LookupError n)
      | Some q \<Rightarrow> Inr \<lparr>asset_datasource = ds_name ds, asset_name = n, asset_query = q\<rparr>)"

definition add_query_asset :: "data_source \<Rightarrow> string \<Rightarrow> string \<Rightarrow> query_asset \<times> data_source" where
  "add_query_asset ds n q =
     (\<lparr>asset_datasource = ds_name ds, asset_name = n, asset_query = q\<rparr>,
      ds\<lparr>ds_assets := ds_assets ds @ [(n, q)]\<rparr>)"

definition build_batch_request :: "query_asset \<Rightarrow> batch_request" where
  "build_batch_request a = \<lparr>datasource_name = asset_datasource a, data_asset_name = asset_name a\<rparr>"

section \<open>The entry point (\<^verbatim>\<open>main.py\<close>)\<close>

definition data_source_path :: "world \<Rightarrow> string \<Rightarrow> string" where
  "data_source_path w dsn =
     os_path_join (project_path (settings w)) [''resources/data_sources'', dsn @ ''.yml'']"

definition load_data_source :: "world \<Rightarrow> gx_context \<Rightarrow> string \<Rightarrow> error + (data_source \<times> gx_context)" where
  "load_data_source w ctx dsn =
     (case safe_load_open w (data_source_path w dsn) of
        Inl e \<Rightarrow> Inl e
      | Inr data_source_params \<Rightarrow>
          (case subscript data_source_params ''name'' of
             Inl e \<Rightarrow> Inl e
           | Inr n \<Rightarrow>
               (case subscript data_source_params ''connection_string'' of
                  Inl e \<Rightarrow> Inl e
                | Inr c \<Rightarrow>
                    Inr (\<lparr>ds_name = n, ds_assets = existing_assets w\<rparr>,
                         ctx @ [Add_or_update_postgres n c]))))"

definition build_suite :: "gx_context \<Rightarrow> Suite \<Rightarrow> string \<times> gx_context" where
  "build_suite ctx suite_config =
     (let suite_name = name_Suite suite_config
      in (suite_name,
          ctx @ [Add_or_update_expectation_suite suite_name]
              @ map (Add_expectation suite_name) (expectations suite_config)
              @ [Update_expectation_suite suite_name]))"

text \<open>The three loops of \<^verbatim>\<open>build_validations\<close>, innermost first. The state they thread
  is the context, the data source and the list \<^verbatim>\<open>validations\<close>. The bare
  \<^verbatim>\<open>except:\<close> turns any failure of \<^verbatim>\<open>get_asset\<close> into \<^verbatim>\<open>add_query_asset\<close>.
  \<^verbatim>\<open>log_jobs_run\<close> only writes the job names to the log and is left out.\<close>

type_synonym build_state = "gx_context \<times> data_source \<times> validation list"

fun assets_loop :: "Suite \<Rightarrow> DataAsset list \<Rightarrow> build_state \<Rightarrow> build_state" where
  "assets_loop su [] st = st"
| "assets_loop su (data_asset_config # rest) (ctx, ds, validations) =
     (let (data_asset, ds') =
            (case get_asset ds (name_DataAsset data_asset_config) of
               Inr a \<Rightarrow> (a, ds)
             | Inl e \<Rightarrow>
                 add_query_asset ds (name_DataAsset data_asset_config) (query data_asset_config));
          br = build_batch_request data_asset;
          (suite_name, ctx') = build_suite ctx su
      in assets_loop su rest
           (ctx', ds', validations @ [\<lparr>batch_request = br, expectation_suite_name = suite_name\<rparr>]))"

fun runs_loop :: "Run list \<Rightarrow> build_state \<Rightarrow> build_state" where
  "runs_loop [] st = st"
| "runs_loop (run # rest) st = runs_loop rest (assets_loop (suite run) (data_assets run) st)"

fun jobs_loop :: "Job list \<Rightarrow> build_state \<Rightarrow> build_state" where
  "jobs_loop [] st = st"
| "jobs_loop (job # rest) st = jobs_loop rest (runs_loop (runs job) st)"

text \<open>\<^verbatim>\<open>if isinstance(jobs, Job): jobs = [jobs]\<close>.\<close>

fun as_list :: "jobs_arg \<Rightarrow> Job list" where
  "as_list (OneJob j) = [j]"
| "as_list (JobList js) = js"

definition build_validations :: "gx_context \<Rightarrow> data_source \<Rightarrow> jobs_arg \<Rightarrow> build_state" where
  "build_validations ctx ds jobs = jobs_loop (as_list jobs) (ctx, ds, [])"

definition build_teams_noti_action :: "string \<Rightarrow> string \<Rightarrow> action" where
  "build_teams_noti_action notify_on wh = MicrosoftTeamsNotificationAction notify_on wh"

definition run_checkpoint :: "world \<Rightarrow> gx_context \<Rightarrow> string \<Rightarrow> validation list \<Rightarrow> string \<Rightarrow> bool \<times> gx_context" where
  "run_checkpoint w ctx jname validations wh =
     (let action_list =
            [StoreValidationResultAction, StoreEvaluationParametersAction, UpdateDataDocsAction]
            @ [build_teams_noti_action ''failure'' wh]
      in (checkpoint_success w,
          ctx @ [Add_or_update_checkpoint jname validations action_list, Checkpoint_run jname]))"

text \<open>The parsed command line. \<^verbatim>\<open>if args.x\<close> holds for a flag that was given a
  non-empty string.\<close>

record args =
  start_date :: "string option"
  end_date :: "string option"
  job_name :: "string option"
  job_tags :: "string option"
  webhook :: "string option"

fun given :: "string option \<Rightarrow> bool" where
  "given None = False"
| "given (Some s) = (s \<noteq> [])"

fun str_of :: "string option \<Rightarrow> string" where
  "str_of None = []"
| "str_of (Some s) = s"

text \<open>The three statements both selector branches share: select, build the validations, run
  the checkpoint under the selector's text; then the success test that follows the branches.\<close>

definition run_selected :: "world \<Rightarrow> gx_context \<Rightarrow> data_source \<Rightarrow> selector \<Rightarrow> string \<Rightarrow> string \<Rightarrow> (error + unit) \<times> gx_context" where
  "run_selected w ctx ds sel cp_name wh =
     (case select_job w sel of
        Inl e \<Rightarrow> (Inl e, ctx)
      | Inr jobs \<Rightarrow>
          (let (ctx', ds', validations) = build_validations ctx ds jobs;
               (success, ctx'') = run_checkpoint w ctx' cp_name validations wh
           in (if \<not> success then Inl Exception_expectations_not_met else Inr (), ctx'')))"

text \<open>The body of the \<^verbatim>\<open>try\<close> block, with the context as it stands when the block is
  left.\<close>

definition main_try :: "world \<Rightarrow> args \<Rightarrow> (error + unit) \<times> gx_context" where
  "main_try w a =
     (let wh = (if given (webhook a) then str_of (webhook a)
                else microsoft_teams_webhook (settings w));
          ctx = [Get_context (project_path (settings w)) (env (settings w))]
      in (case load_data_source w ctx ''staging_postgres'' of
            Inl e \<Rightarrow> (Inl e, ctx)
          | Inr (ds, ctx') \<Rightarrow>
              if given (job_name a) then
                run_selected w ctx' ds (Str (str_of (job_name a))) (str_of (job_name a)) wh
              else if given (job_tags a) then
                run_selected w ctx' ds
                  (Lst (py_split CHR ''-'' (str_of (job_tags a)))) (str_of (job_tags a)) wh
              else (Inl Exception_no_job_name_or_tags, ctx')))"

text \<open>\<^verbatim>\<open>except Exception as error: raise Exception("ERROR: ", error)\<close>. The handler for
  the runtime's own configuration error is never entered here, the runtime's calls being
  taken to succeed.\<close>

definition main :: "world \<Rightarrow> args \<Rightarrow> (error + unit) \<times> gx_context" where
  "main w a =
     (case main_try w a of
        (Inl e, ctx) \<Rightarrow> (Inl (Exception_ERROR e), ctx)
      | (Inr u, ctx) \<Rightarrow> (Inr u, ctx))"

text \<open>The exit status of the interpreter: 1 after an uncaught exception, 0 otherwise.\<close>

fun exit_status :: "(error + unit) \<times> gx_context \<Rightarrow> nat" where
  "exit_status (Inl e, ctx) = 1"
| "exit_status (Inr u, ctx) = 0"

section \<open>Relations the properties are stated with\<close>

text \<open>An entry of a suite file and the \<^verbatim>\<open>Expectation\<close> it stands for: the entry is a
  dict whose \<^verbatim>\<open>expectation_type\<close> and \<^verbatim>\<open>kwargs\<close> are the expectation's fields.\<close>

fun maps_to :: "yaml \<Rightarrow> Expectation \<Rightarrow> bool" where
  "maps_to (YDict kv) ex =
     (map_of kv ''expectation_type'' = Some (YStr (expectation_type ex)) \<and>
      map_of kv ''kwargs'' = Some (YDict (kwargs ex)))"
| "maps_to _ ex = False"

text \<open>The job files of the tree, in the order the walk meets them: per directory, the
  names ending in \<^verbatim>\<open>.yml\<close>, joined to the directory.\<close>

fun dir_files :: "string \<times> string list \<times> string list \<Rightarrow> string list" where
  "dir_files (root, dirs, fs) =
     map (\<lambda>f. os_path_join root [f]) (filter (\<lambda>f. endswith f ''.yml'') fs)"

definition job_files :: "world \<Rightarrow> string list" where
  "job_files w = concat (map dir_files (os_walk w (jobs_dir w)))"

text \<open>Loading and assembling the job of one file.\<close>

definition load_job :: "world \<Rightarrow> string \<Rightarrow> error + Job" where
  "load_job w path =
     (case safe_load_open w path of
        Inl e \<Rightarrow> Inl e
      | Inr job_data \<Rightarrow> handle_job_data w job_data)"

text \<open>A job's tag set is a superset of the requested tags.\<close>

definition has_tags :: "string list \<Rightarrow> Job \<Rightarrow> bool" where
  "has_tags tgs job = (case tags job of None \<Rightarrow> False | Some jt \<Rightarrow> set tgs \<subseteq> set jt)"

text \<open>The descriptors in nesting order: per job, per run, per data asset, the batch
  request for the asset on the data source paired with the name of the run's suite.\<close>

definition descriptor :: "yaml \<Rightarrow> Suite \<Rightarrow> DataAsset \<Rightarrow> validation" where
  "descriptor dsn su a =
     \<lparr>batch_request = \<lparr>datasource_name = dsn, data_asset_name = name_DataAsset a\<rparr>,
      expectation_suite_name = name_Suite su\<rparr>"

definition run_descriptors :: "yaml \<Rightarrow> Run \<Rightarrow> validation list" where
  "run_descriptors dsn r = map (descriptor dsn (suite r)) (data_assets r)"

definition job_descriptors :: "yaml \<Rightarrow> Job \<Rightarrow> validation list" where
  "job_descriptors dsn j = concat (map (run_descriptors dsn) (runs j))"

definition descriptors :: "yaml \<Rightarrow> Job list \<Rightarrow> validation list" where
  "descriptors dsn js = concat (map (job_descriptors dsn) js)"

text \<open>The data assets of the jobs in the same order, and their number.\<close>

definition job_assets :: "Job \<Rightarrow> DataAsset list" where
  "job_assets j = concat (map data_assets (runs j))"

definition all_assets :: "Job list \<Rightarrow> DataAsset list" where
  "all_assets js = concat (map job_assets js)"

definition asset_count :: "Job list \<Rightarrow> nat" where
  "asset_count js = sum_list (map (\<lambda>j. sum_list (map (\<lambda>r. length (data_assets r)) (runs j))) js)"

text \<open>The runtime calls that register one suite, and those of a run and of a job: the
  suite is registered once per data asset of its run.\<close>

definition suite_calls :: "Suite \<Rightarrow> gx_call list" where
  "suite_calls su =
     [Add_or_update_expectation_suite (name_Suite su)]
     @ map (Add_expectation (name_Suite su)) (expectations su)
     @ [Update_expectation_suite (name_Suite su)]"

definition run_calls :: "Run \<Rightarrow> gx_call list" where
  "run_calls r = concat (map (\<lambda>a. suite_calls (suite r)) (data_assets r))"

definition job_calls :: "Job \<Rightarrow> gx_call list" where
  "job_calls j = concat (map run_calls (runs j))"

text \<open>Look up, else create: what one data asset does to the assets of the data source.\<close>

definition upsert :: "(string \<times> string) list \<Rightarrow> DataAsset \<Rightarrow> (string \<times> string) list" where
  "upsert as a =
     (case map_of as (name_DataAsset a) of
        None \<Rightarrow> as @ [(name_DataAsset a, query a)]
      | Some q \<Rightarrow> as)"

text \<open>The calls that set the runtime up, as opposed to those that register a suite or a
  checkpoint or run one.\<close>

fun is_setup_call :: "gx_call \<Rightarrow> bool" where
  "is_setup_call (Get_context p e) = True"
| "is_setup_call (Add_or_update_postgres n c) = True"
| "is_setup_call _ = False"

section \<open>An example project\<close>

text \<open>
  A small project tree, used to run the definitions: one asset group, one suite whose
  inner name differs from its file name, one data source and one tagged job. The second
  world adds a job file without a \<^verbatim>\<open>tags\<close> field, the third an empty job file. Then
  the models the files assemble
  to, a data source that holds one of the two assets already, and two command lines.
\<close>

definition way4_yml :: yaml where
  "way4_yml = YDict [(''data_assets'', YList
     [YDict [(''name'', YStr ''doc''), (''query'', YStr ''select 1'')],
      YDict [(''name'', YStr ''acc''), (''query'', YStr ''select 2'')]])]"

definition basic_yml :: yaml where
  "basic_yml = YDict [(''name'', YStr ''basic_suite''), (''expectations'', YList
     [YDict [(''expectation_type'', YStr ''expect_column_to_exist''),
             (''kwargs'', YDict [(''column'', YStr ''id'')])],
      YDict [(''expectation_type'', YStr ''expect_table_row_count_to_be_between''),
             (''kwargs'', YDict [(''min_value'', YInt 1)])]])]"

definition daily_recon_yml :: yaml where
  "daily_recon_yml = YDict [(''name'', YStr ''daily_recon''),
     (''tags'', YList [YStr ''nightly'', YStr ''finance'']),
     (''runs'', YList [YDict [(''data_assets'', YList [YStr ''way4.doc'', YStr ''way4.acc'']),
                              (''suite'', YStr ''basic'')]])]"

definition adhoc_yml :: yaml where
  "adhoc_yml = YDict [(''name'', YStr ''adhoc''),
     (''runs'', YList [YDict [(''data_assets'', YList [YStr ''way4.doc'']),
                              (''suite'', YStr ''basic'')]])]"

definition staging_postgres_yml :: yaml where
  "staging_postgres_yml = YDict [(''name'', YStr ''staging''),
     (''connection_string'', YStr ''postgresql://qa@db/stage'')]"

definition example_settings :: config where
  "example_settings = \<lparr>env = ''dev'', project_path = ''/p'', microsoft_teams_webhook = ''hook''\<rparr>"

definition example_world :: world where
  "example_world =
     \<lparr>settings = example_settings,
      files = map_of
        [(''/p/resources/data_assets/way4.yml'', Doc way4_yml),
         (''/p/resources/suites/basic.yml'', Doc basic_yml),
         (''/p/resources/jobs/finance/daily_recon.yml'', Doc daily_recon_yml),
         (''/p/resources/data_sources/staging_postgres.yml'', Doc staging_postgres_yml)],
      os_walk = (\<lambda>d. if d = ''/p/resources/jobs''
                       then [(''/p/resources/jobs'', [''finance''], [''README.md'']),
                             (''/p/resources/jobs/finance'', [], [''daily_recon.yml''])]
                       else []),
      existing_assets = [(''way4.acc'', ''select 0'')],
      checkpoint_success = True\<rparr>"

definition untagged_world :: world where
  "untagged_world =
     example_world
       \<lparr>files := (files example_world)(''/p/resources/jobs/finance/adhoc.yml'' \<mapsto> Doc adhoc_yml),
        os_walk := (\<lambda>d. if d = ''/p/resources/jobs''
                       then [(''/p/resources/jobs'', [''finance''], [''README.md'']),
                             (''/p/resources/jobs/finance'', [], [''daily_recon.yml'', ''adhoc.yml''])]
                       else [])\<rparr>"

definition empty_file_world :: world where
  "empty_file_world =
     example_world
       \<lparr>files := (files example_world)(''/p/resources/jobs/finance/empty.yml'' \<mapsto> Doc YNull),
        os_walk := (\<lambda>d. if d = ''/p/resources/jobs''
                       then [(''/p/resources/jobs'', [''finance''], [''README.md'']),
                             (''/p/resources/jobs/finance'', [], [''daily_recon.yml'', ''empty.yml''])]
                       else [])\<rparr>"

definition doc_asset :: DataAsset where
  "doc_asset = \<lparr>name_DataAsset = ''way4.doc'', query = ''select 1''\<rparr>"

definition acc_asset :: DataAsset where
  "acc_asset = \<lparr>name_DataAsset = ''way4.acc'', query = ''select 2''\<rparr>"

definition basic_suite :: Suite where
  "basic_suite = \<lparr>name_Suite = ''basic_suite'', expectations =
     [\<lparr>expectation_type = ''expect_column_to_exist'', kwargs = [(''column'', YStr ''id'')]\<rparr>,
      \<lparr>expectation_type = ''expect_table_row_count_to_be_between'',
       kwargs = [(''min_value'', YInt 1)]\<rparr>]\<rparr>"

definition daily_recon_job :: Job where
  "daily_recon_job = \<lparr>name_Job = ''daily_recon'',
     runs = [\<lparr>data_assets = [doc_asset, acc_asset], suite = basic_suite\<rparr>],
     tags = Some [''nightly'', ''finance'']\<rparr>"

definition adhoc_job :: Job where
  "adhoc_job = \<lparr>name_Job = ''adhoc'',
     runs = [\<lparr>data_assets = [doc_asset], suite = basic_suite\<rparr>],
     tags = None\<rparr>"

definition example_data_source :: data_source where
  "example_data_source = \<lparr>ds_name = YStr ''staging'', ds_assets = [(''way4.acc'', ''select 0'')]\<rparr>"

definition no_args :: args where
  "no_args = \<lparr>start_date = None, end_date = None, job_name = None, job_tags = None,
     webhook = None\<rparr>"

definition name_args :: args where
  "name_args = no_args\<lparr>job_name := Some ''finance.daily_recon''\<rparr>"

section \<open>Verified properties\<close>

subsection \<open>Splitting names\<close>

lemma py_split_not_Nil: "py_split sep s \<noteq> []"
  by (induction s) (auto split: list.splits)

lemma length_py_split: "length (py_split sep s) = Suc (count_list s sep)"
proof (induction s)
  case Nil
  show ?case by simp
next
  case (Cons c cs)
  then show ?case
    using py_split_not_Nil [of sep cs] by (auto split: list.splits)
qed

lemma py_split_no_sep: "sep \<notin> set a \<Longrightarrow> py_split sep a = [a]"
  by (induction a) auto

lemma py_split_first: "sep \<notin> set a \<Longrightarrow> py_split sep (a @ sep # r) = a # py_split sep r"
  by (induction a) auto

lemma unpack2_wrong_length: "length xs \<noteq> 2 \<Longrightarrow> unpack2 xs = Inl (ValueError_unpack (length xs))"
  by (cases xs rule: unpack2.cases) auto

lemma unpack2_split_error:
  "count_list s sep \<noteq> 1 \<Longrightarrow>
   unpack2 (py_split sep s) = Inl (ValueError_unpack (Suc (count_list s sep)))"
  using unpack2_wrong_length [of "py_split sep s"] by (simp add: length_py_split)

lemma unpack2_split_ok:
  "sep \<notin> set a \<Longrightarrow> sep \<notin> set b \<Longrightarrow> unpack2 (py_split sep (a @ sep # b)) = Inr (a, b)"
  by (simp add: py_split_first py_split_no_sep)

text \<open>
  Claim C5. A name with no dot or with more than one dot makes \<^verbatim>\<open>select_asset\<close> and
  \<^verbatim>\<open>_select_job_by_filename\<close> raise at the unpacking of the split, whatever the files
  hold: with \<open>n\<close> dots the split has \<open>n + 1\<close> pieces, and two are expected. The split cuts
  at the first dot: the text before it is the first piece.
\<close>

theorem malformed_name_raises:
  "(count_list fname CHR ''.'' \<noteq> 1 \<longrightarrow>
      select_asset w fname = Inl (ValueError_unpack (Suc (count_list fname CHR ''.''))) \<and>
      select_job_by_filename w fname = Inl (ValueError_unpack (Suc (count_list fname CHR ''.'')))) \<and>
   (\<forall>g rest. fname = g @ ''.'' @ rest \<and> CHR ''.'' \<notin> set g \<longrightarrow>
      py_split CHR ''.'' fname = g # py_split CHR ''.'' rest)"
  by (simp add: select_asset_def select_job_by_filename_def unpack2_split_error py_split_first)

theorem malformed_name_raises_witness:
  "count_list ''badname'' CHR ''.'' \<noteq> 1 \<and>
   select_asset example_world ''badname'' = Inl (ValueError_unpack 1) \<and>
   select_job_by_filename example_world ''badname'' = Inl (ValueError_unpack 1) \<and>
   count_list ''a.b.c'' CHR ''.'' \<noteq> 1 \<and>
   select_asset example_world ''a.b.c'' = Inl (ValueError_unpack 3) \<and>
   select_job_by_filename example_world ''a.b.c'' = Inl (ValueError_unpack 3) \<and>
   CHR ''.'' \<notin> set ''way4'' \<and>
   py_split CHR ''.'' ''way4.doc'' = [''way4'', ''doc'']"
  using malformed_name_raises [of "''badname''" example_world]
        malformed_name_raises [of "''a.b.c''" example_world]
        malformed_name_raises [of "''way4.doc''" example_world, THEN conjunct2, rule_format,
          of "''way4''" "''doc''"]
  by simp

subsection \<open>Assets and suites\<close>

text \<open>For a project root that is not empty and does not end in a slash, and a group that
  does not start with one, the path is the plain concatenation.\<close>

lemma join_step_plain:
  "path \<noteq> [] \<Longrightarrow> last path \<noteq> CHR ''/'' \<Longrightarrow> b = [] \<or> hd b \<noteq> CHR ''/'' \<Longrightarrow>
   join_step path b = path @ ''/'' @ b"
  by (auto simp: join_step_def)

lemma asset_path_plain:
  assumes "project_path (settings w) = root" "root \<noteq> []" "last root \<noteq> CHR ''/''"
    and "g = [] \<or> hd g \<noteq> CHR ''/''"
  shows "asset_path w g = root @ ''/resources/data_assets/'' @ g @ ''.yml''"
  using assms by (auto simp: asset_path_def os_path_join_def join_step_def hd_append)

lemma find_asset_first_match:
  assumes "\<forall>x\<in>set pre. \<exists>kv. x = YDict kv \<and> map_of kv ''name'' \<noteq> Some (YStr l)"
    and "map_of e ''name'' = Some (YStr l)"
  shows "find_asset fname l (pre @ YDict e # post) =
           (case subscript (YDict e) ''query'' of Inl er \<Rightarrow> Inl er | Inr q \<Rightarrow> new_DataAsset fname q)"
  using assms
proof (induction pre)
  case Nil
  then show ?case by simp
next
  case (Cons x pre)
  then obtain kv where "x = YDict kv" "map_of kv ''name'' \<noteq> Some (YStr l)" by auto
  with Cons show ?case by (auto split: option.splits)
qed

text \<open>
  Claim C1. Let the name be \<open>g.l\<close> with no further dot, let the file of group \<open>g\<close> exist
  and hold a dict whose \<^verbatim>\<open>data_assets\<close> list has an entry named \<open>l\<close> with the query
  string \<open>q\<close>, the entries before it being dicts with other names. Then
  \<^verbatim>\<open>select_asset\<close> returns the asset whose name is the whole string \<open>g.l\<close>, not the
  leaf, and whose query is \<open>q\<close>.
\<close>

theorem select_asset_keeps_composite_name:
  assumes "CHR ''.'' \<notin> set g" and "CHR ''.'' \<notin> set l"
    and "files w (asset_path w g) = Some (Doc (YDict body))"
    and "map_of body ''data_assets'' = Some (YList (pre @ YDict e # post))"
    and "\<forall>x\<in>set pre. \<exists>kv. x = YDict kv \<and> map_of kv ''name'' \<noteq> Some (YStr l)"
    and "map_of e ''name'' = Some (YStr l)"
    and "map_of e ''query'' = Some (YStr q)"
  shows "select_asset w (g @ ''.'' @ l) = Inr \<lparr>name_DataAsset = g @ ''.'' @ l, query = q\<rparr>"
proof -
  have "unpack2 (py_split CHR ''.'' (g @ ''.'' @ l)) = Inr (g, l)"
    using assms(1,2) unpack2_split_ok [of "CHR ''.''" g l] by simp
  moreover have "find_asset (g @ ''.'' @ l) l (pre @ YDict e # post) =
      Inr \<lparr>name_DataAsset = g @ ''.'' @ l, query = q\<rparr>"
    using find_asset_first_match [OF assms(5,6)] assms(7) by simp
  ultimately show ?thesis
    using assms(3,4) by (simp add: select_asset_def safe_load_open_def)
qed

theorem select_asset_keeps_composite_name_witness:
  "select_asset example_world ''way4.acc'' = Inr \<lparr>name_DataAsset = ''way4.acc'', query = ''select 2''\<rparr>"
proof -
  have "asset_path example_world ''way4'' = ''/p/resources/data_assets/way4.yml''"
    by (simp add: asset_path_def example_world_def example_settings_def os_path_join_def join_step_def)
  then have "files example_world (asset_path example_world ''way4'') = Some (Doc way4_yml)"
    by (simp add: example_world_def)
  then show ?thesis
    using select_asset_keeps_composite_name
      [where w = example_world and g = "''way4''" and l = "''acc''" and q = "''select 2''"
         and body = "[(''data_assets'', YList
               [YDict [(''name'', YStr ''doc''), (''query'', YStr ''select 1'')],
                YDict [(''name'', YStr ''acc''), (''query'', YStr ''select 2'')]])]"
         and pre = "[YDict [(''name'', YStr ''doc''), (''query'', YStr ''select 1'')]]"
         and e = "[(''name'', YStr ''acc''), (''query'', YStr ''select 2'')]"
         and post = "[]"]
    by (simp add: way4_yml_def)
qed

lemma map_expectations_ok:
  "\<forall>x\<in>set xs. \<exists>ex. maps_to x ex \<Longrightarrow>
   \<exists>exps. map_expectations xs = Inr exps \<and> list_all2 maps_to xs exps"
proof (induction xs)
  case Nil
  show ?case by simp
next
  case (Cons x xs)
  then obtain exps where r: "map_expectations xs = Inr exps" "list_all2 maps_to xs exps" by auto
  from Cons.prems obtain ex where "maps_to x ex" by auto
  then obtain kv where "x = YDict kv"
    "map_of kv ''expectation_type'' = Some (YStr (expectation_type ex))"
    "map_of kv ''kwargs'' = Some (YDict (kwargs ex))"
    by (cases x) auto
  with r show ?case by simp
qed

text \<open>
  Claim C4. When the file of suite selector \<open>sname\<close> exists and holds a dict with a
  string \<^verbatim>\<open>name\<close> and a list \<^verbatim>\<open>expectations\<close> of well-formed entries,
  \<^verbatim>\<open>select_suite\<close> returns a suite named by the file's \<^verbatim>\<open>name\<close> field, whatever the
  selector was, and its expectations are the entries' expectations, one for one and in
  the order of the file.
\<close>

theorem select_suite_takes_inner_name:
  assumes "files w (suite_path w sname) = Some (Doc (YDict body))"
    and "map_of body ''name'' = Some (YStr n)"
    and "map_of body ''expectations'' = Some (YList es)"
    and "\<forall>x\<in>set es. \<exists>ex. maps_to x ex"
  shows "\<exists>exps. select_suite w sname = Inr \<lparr>name_Suite = n, expectations = exps\<rparr> \<and>
                list_all2 maps_to es exps"
proof -
  from map_expectations_ok [OF assms(4)] obtain exps
    where "map_expectations es = Inr exps" "list_all2 maps_to es exps" by auto
  with assms(1-3) show ?thesis
    by (simp add: select_suite_def safe_load_open_def)
qed

theorem select_suite_takes_inner_name_witness:
  "''basic_suite'' \<noteq> ''basic'' \<and>
   select_suite example_world ''basic'' = Inr basic_suite \<and>
   list_all2 maps_to
     [YDict [(''expectation_type'', YStr ''expect_column_to_exist''),
             (''kwargs'', YDict [(''column'', YStr ''id'')])],
      YDict [(''expectation_type'', YStr ''expect_table_row_count_to_be_between''),
             (''kwargs'', YDict [(''min_value'', YInt 1)])]]
     (expectations basic_suite)"
proof -
  have "suite_path example_world ''basic'' = ''/p/resources/suites/basic.yml''"
    by (simp add: suite_path_def example_world_def example_settings_def os_path_join_def join_step_def)
  then have f: "files example_world (suite_path example_world ''basic'') = Some (Doc basic_yml)"
    by (simp add: example_world_def)
  have e: "select_suite example_world ''basic'' = Inr basic_suite"
    using f by (simp add: select_suite_def safe_load_open_def basic_yml_def basic_suite_def)
  have wf: "\<forall>x\<in>set
     [YDict [(''expectation_type'', YStr ''expect_column_to_exist''),
             (''kwargs'', YDict [(''column'', YStr ''id'')])],
      YDict [(''expectation_type'', YStr ''expect_table_row_count_to_be_between''),
             (''kwargs'', YDict [(''min_value'', YInt 1)])]]. \<exists>ex. maps_to x ex"
  proof -
    have "maps_to (YDict [(''expectation_type'', YStr ''expect_column_to_exist''),
             (''kwargs'', YDict [(''column'', YStr ''id'')])])
             \<lparr>expectation_type = ''expect_column_to_exist'', kwargs = [(''column'', YStr ''id'')]\<rparr>"
      by simp
    moreover have "maps_to (YDict [(''expectation_type'', YStr ''expect_table_row_count_to_be_between''),
             (''kwargs'', YDict [(''min_value'', YInt 1)])])
             \<lparr>expectation_type = ''expect_table_row_count_to_be_between'', kwargs = [(''min_value'', YInt 1)]\<rparr>"
      by simp
    ultimately show ?thesis by (simp del: maps_to.simps) blast
  qed
  show ?thesis
    using select_suite_takes_inner_name
      [where w = example_world and sname = "''basic''" and n = "''basic_suite''"
         and body = "[(''name'', YStr ''basic_suite''), (''expectations'', YList
            [YDict [(''expectation_type'', YStr ''expect_column_to_exist''),
                    (''kwargs'', YDict [(''column'', YStr ''id'')])],
             YDict [(''expectation_type'', YStr ''expect_table_row_count_to_be_between''),
                    (''kwargs'', YDict [(''min_value'', YInt 1)])]])]",
       OF _ _ _ wf]
      f e
    by (auto simp: basic_yml_def basic_suite_def)
qed

subsection \<open>Selection by file name\<close>

text \<open>
  Claim C8. For a name \<open>sub.jn\<close> with one dot, \<^verbatim>\<open>_select_job_by_filename\<close> reads the
  file \<^verbatim>\<open>resources/jobs/sub/jn.yml\<close> under the project root. It raises when the file
  is missing (\<^verbatim>\<open>FileNotFoundError\<close> from \<^verbatim>\<open>open\<close>) and when the file loads to
  nothing (\<^verbatim>\<open>ValueError\<close>, "No job found for filename"); otherwise its result is that
  of \<^verbatim>\<open>handle_job_data\<close> on the loaded document.
\<close>

theorem select_job_by_filename_outcomes:
  assumes "CHR ''.'' \<notin> set sub" and "CHR ''.'' \<notin> set jn"
  shows
    "(files w (job_path w sub jn) = None \<longrightarrow>
        select_job_by_filename w (sub @ ''.'' @ jn) = Inl (FileNotFoundError (job_path w sub jn))) \<and>
     (\<forall>y. files w (job_path w sub jn) = Some (Doc y) \<and> \<not> truthy y \<longrightarrow>
        select_job_by_filename w (sub @ ''.'' @ jn) =
          Inl (ValueError_no_job_for_filename (sub @ ''.'' @ jn))) \<and>
     (\<forall>y. files w (job_path w sub jn) = Some (Doc y) \<and> truthy y \<longrightarrow>
        select_job_by_filename w (sub @ ''.'' @ jn) = handle_job_data w y)"
proof -
  have "unpack2 (py_split CHR ''.'' (sub @ ''.'' @ jn)) = Inr (sub, jn)"
    using assms unpack2_split_ok [of "CHR ''.''" sub jn] by simp
  then show ?thesis
    by (simp add: select_job_by_filename_def safe_load_open_def)
qed

lemma job_path_plain:
  assumes "project_path (settings w) = root" "root \<noteq> []" "last root \<noteq> CHR ''/''"
    and "sub \<noteq> []" "hd sub \<noteq> CHR ''/''" "last sub \<noteq> CHR ''/''"
    and "jn = [] \<or> hd jn \<noteq> CHR ''/''"
  shows "job_path w sub jn = root @ ''/resources/jobs/'' @ sub @ ''/'' @ jn @ ''.yml''"
  using assms by (auto simp: job_path_def os_path_join_def join_step_def hd_append)

theorem select_job_by_filename_outcomes_witness:
  "select_job_by_filename empty_file_world ''finance.nope'' =
     Inl (FileNotFoundError ''/p/resources/jobs/finance/nope.yml'') \<and>
   select_job_by_filename empty_file_world ''finance.empty'' =
     Inl (ValueError_no_job_for_filename ''finance.empty'') \<and>
   select_job_by_filename empty_file_world ''finance.daily_recon'' =
     handle_job_data empty_file_world daily_recon_yml \<and>
   handle_job_data empty_file_world daily_recon_yml = Inr daily_recon_job"
proof -
  have n: "files empty_file_world (job_path empty_file_world ''finance'' ''nope'') = None"
    and e: "files empty_file_world (job_path empty_file_world ''finance'' ''empty'') = Some (Doc YNull)"
    and d: "files empty_file_world (job_path empty_file_world ''finance'' ''daily_recon'') = Some (Doc daily_recon_yml)"
    by (simp_all add: job_path_def os_path_join_def join_step_def empty_file_world_def
          example_world_def example_settings_def)
  have t: "truthy daily_recon_yml" by (simp add: daily_recon_yml_def)
  have j: "handle_job_data empty_file_world daily_recon_yml = Inr daily_recon_job"
    by code_simp
  show ?thesis
    using select_job_by_filename_outcomes [of "''finance''" "''nope''" empty_file_world]
          select_job_by_filename_outcomes [of "''finance''" "''empty''" empty_file_world]
          select_job_by_filename_outcomes [of "''finance''" "''daily_recon''" empty_file_world]
          n e d t j
    by (simp add: job_path_def os_path_join_def join_step_def empty_file_world_def
          example_world_def example_settings_def)
qed

subsection \<open>Selection by tags\<close>

lemma all_tags_in_Some: "all_tags_in (Some jt) tgs = Inr (set tgs \<subseteq> set jt)"
  by (induction tgs) auto

lemma scan_files_filter:
  assumes "map (load_job w) (dir_files (root, dirs, fs)) = map Inr js"
    and "\<forall>j\<in>set js. all_tags_in (tags j) tgs = Inr (keep j)"
  shows "scan_files w tgs root fs acc = Inr (acc @ filter keep js)"
  using assms
proof (induction fs arbitrary: js acc)
  case Nil
  then show ?case by simp
next
  case (Cons f fs)
  show ?case
  proof (cases "endswith f ''.yml''")
    case False
    with Cons show ?thesis by simp
  next
    case True
    with Cons.prems(1) obtain j js' where js: "js = j # js'"
      and j: "load_job w (os_path_join root [f]) = Inr j"
      and rest: "map (load_job w) (dir_files (root, dirs, fs)) = map Inr js'"
      by (cases js) auto
    from j obtain d where d: "safe_load_open w (os_path_join root [f]) = Inr d"
      "handle_job_data w d = Inr j"
      by (auto simp: load_job_def split: sum.splits)
    from Cons.prems(2) js have k: "all_tags_in (tags j) tgs = Inr (keep j)"
      and k': "\<forall>j\<in>set js'. all_tags_in (tags j) tgs = Inr (keep j)" by auto
    show ?thesis
      using True d k js Cons.IH [OF rest k'] by simp
  qed
qed

lemma scan_dirs_filter:
  assumes "map (load_job w) (concat (map dir_files ds)) = map Inr js"
    and "\<forall>j\<in>set js. all_tags_in (tags j) tgs = Inr (keep j)"
  shows "scan_dirs w tgs ds acc = Inr (acc @ filter keep js)"
  using assms
proof (induction ds arbitrary: js acc)
  case Nil
  then show ?case by simp
next
  case (Cons d ds)
  obtain root dirs fs where d: "d = (root, dirs, fs)" by (cases d)
  from Cons.prems(1) have
    "map (load_job w) (dir_files d) @ map (load_job w) (concat (map dir_files ds)) = map Inr js"
    by simp
  then obtain js1 js2 where js: "js = js1 @ js2"
    and h1: "map (load_job w) (dir_files d) = map Inr js1"
    and h2: "map (load_job w) (concat (map dir_files ds)) = map Inr js2"
    by (auto simp: append_eq_map_conv)
  from Cons.prems(2) js have k1: "\<forall>j\<in>set js1. all_tags_in (tags j) tgs = Inr (keep j)"
    and k2: "\<forall>j\<in>set js2. all_tags_in (tags j) tgs = Inr (keep j)" by auto
  have "scan_files w tgs root fs acc = Inr (acc @ filter keep js1)"
    using scan_files_filter [OF h1 [unfolded d] k1] .
  then show ?case
    using Cons.IH [OF h2 k2] d js by simp
qed

text \<open>When every job file of the tree assembles to a job that carries tags, the selection
  is the filter by superset over the jobs in walk order, and raises when the filter leaves
  nothing.\<close>

lemma select_jobs_by_tags_tagged:
  assumes "map (load_job w) (job_files w) = map Inr js"
    and "\<forall>j\<in>set js. tags j \<noteq> None"
  shows "select_jobs_by_tags w tgs =
           (if filter (has_tags tgs) js = [] then Inl (ValueError_no_job_for_tags tgs)
            else Inr (filter (has_tags tgs) js))"
proof -
  have "\<forall>j\<in>set js. all_tags_in (tags j) tgs = Inr (has_tags tgs j)"
    using assms(2) by (auto simp: all_tags_in_Some has_tags_def)
  from scan_dirs_filter [OF assms(1) [unfolded job_files_def] this, of "[]"]
  show ?thesis by (simp add: select_jobs_by_tags_def)
qed

text \<open>
  Claim C6. With an empty tag list no job is filtered out: when the job files of the tree
  assemble to the jobs \<open>js\<close>, tagged or not, \<^verbatim>\<open>_select_jobs_by_tags([])\<close> returns all
  of \<open>js\<close> in walk order, and it raises only when there is no job file at all.
\<close>

theorem empty_tag_list_selects_every_job:
  assumes "map (load_job w) (job_files w) = map Inr js"
  shows "select_jobs_by_tags w [] =
           (if js = [] then Inl (ValueError_no_job_for_tags []) else Inr js)"
proof -
  have "\<forall>j\<in>set js. all_tags_in (tags j) [] = Inr ((\<lambda>j. True) j)" by simp
  from scan_dirs_filter [OF assms [unfolded job_files_def] this, of "[]"]
  show ?thesis by (simp add: select_jobs_by_tags_def)
qed


theorem empty_tag_list_selects_every_job_witness:
  "map (load_job untagged_world) (job_files untagged_world) = map Inr [daily_recon_job, adhoc_job] \<and>
   tags adhoc_job = None \<and>
   select_jobs_by_tags untagged_world [] = Inr [daily_recon_job, adhoc_job]"
proof -
  have l: "map (load_job untagged_world) (job_files untagged_world) =
      map Inr [daily_recon_job, adhoc_job]"
    by code_simp
  show ?thesis
    using empty_tag_list_selects_every_job [OF l] l by (simp add: adhoc_job_def)
qed

lemma handle_job_data_untagged:
  assumes "handle_job_data w (YDict kvs) = Inr job" and "map_of kvs ''tags'' = None"
  shows "tags job = None"
proof -
  from assms obtain n rs where "new_Job n rs YNull = Inr job"
    by (auto simp: handle_job_data_def split: sum.splits)
  then show ?thesis
    by (cases n) auto
qed

lemma scan_files_untagged:
  assumes "f \<in> set fs" and "endswith f ''.yml''" and "tgs \<noteq> []"
    and "\<forall>job. load_job w (os_path_join root [f]) = Inr job \<longrightarrow> tags job = None"
  shows "\<exists>e. scan_files w tgs root fs acc = Inl e"
  using assms(1)
proof (induction fs arbitrary: acc)
  case Nil
  then show ?case by simp
next
  case (Cons x fs)
  from assms(3) obtain t ts where tgs: "tgs = t # ts" by (cases tgs) auto
  show ?case
  proof (cases "x = f")
    case True
    show ?thesis
    proof (cases "load_job w (os_path_join root [f])")
      case (Inl e)
      then show ?thesis
        using True assms(2) by (auto simp: load_job_def split: sum.splits)
    next
      case (Inr job)
      with assms(4) have "tags job = None" by simp
      with Inr show ?thesis
        using True assms(2) tgs by (auto simp: load_job_def split: sum.splits)
    qed
  next
    case False
    with Cons.prems have "f \<in> set fs" by simp
    then have ih: "\<And>acc. \<exists>e. scan_files w tgs root fs acc = Inl e" by (rule Cons.IH)
    show ?thesis
    proof (cases "scan_files w tgs root (x # fs) acc")
      case (Inl e)
      then show ?thesis by simp
    next
      case (Inr r)
      then obtain acc' where "scan_files w tgs root fs acc' = Inr r"
        by (auto split: if_splits sum.splits)
      with ih [of acc'] show ?thesis by simp
    qed
  qed
qed

lemma scan_dirs_untagged:
  assumes "(root, dirs, fs) \<in> set ds"
    and "\<And>acc. \<exists>e. scan_files w tgs root fs acc = Inl e"
  shows "\<exists>e. scan_dirs w tgs ds acc = Inl e"
  using assms(1)
proof (induction ds arbitrary: acc)
  case Nil
  then show ?case by simp
next
  case (Cons d ds)
  obtain root' dirs' fs' where d: "d = (root', dirs', fs')" by (cases d)
  show ?case
  proof (cases "d = (root, dirs, fs)")
    case True
    with assms(2) [of acc] show ?thesis by auto
  next
    case False
    with Cons.prems have "(root, dirs, fs) \<in> set ds" by simp
    then have "\<And>acc. \<exists>e. scan_dirs w tgs ds acc = Inl e" by (rule Cons.IH)
    then show ?thesis
      unfolding d by (cases "scan_files w tgs root' fs' acc") auto
  qed
qed

text \<open>
  Claim C9. If the walk lists a \<^verbatim>\<open>.yml\<close> file whose document is a dict without a
  \<^verbatim>\<open>tags\<close> key, then \<^verbatim>\<open>_select_jobs_by_tags\<close> raises for every non-empty tag list.
  The job assembled from that file, if it assembles, has \<^verbatim>\<open>tags = None\<close>, and the
  membership test on it raises \<^verbatim>\<open>TypeError\<close>: the untagged job is not skipped.
\<close>

theorem untagged_job_breaks_tag_selection:
  assumes "(root, dirs, fs) \<in> set (os_walk w (jobs_dir w))"
    and "f \<in> set fs" and "endswith f ''.yml''"
    and "files w (os_path_join root [f]) = Some (Doc (YDict kvs))"
    and "map_of kvs ''tags'' = None"
    and "tgs \<noteq> []"
  shows "(\<exists>e. select_jobs_by_tags w tgs = Inl e) \<and>
         (\<forall>job. handle_job_data w (YDict kvs) = Inr job \<longrightarrow>
                tags job = None \<and> all_tags_in (tags job) tgs = Inl TypeError)"
proof -
  have u: "\<forall>job. handle_job_data w (YDict kvs) = Inr job \<longrightarrow> tags job = None"
    using handle_job_data_untagged [OF _ assms(5)] by blast
  then have "\<forall>job. load_job w (os_path_join root [f]) = Inr job \<longrightarrow> tags job = None"
    using assms(4) by (simp add: load_job_def safe_load_open_def)
  then have "\<And>acc. \<exists>e. scan_files w tgs root fs acc = Inl e"
    using scan_files_untagged [OF assms(2,3,6)] by blast
  then obtain e where "scan_dirs w tgs (os_walk w (jobs_dir w)) [] = Inl e"
    using scan_dirs_untagged [OF assms(1)] by blast
  then have "select_jobs_by_tags w tgs = Inl e"
    by (simp add: select_jobs_by_tags_def)
  moreover from assms(6) obtain t ts where "tgs = t # ts" by (cases tgs) auto
  ultimately show ?thesis using u by auto
qed

theorem untagged_job_breaks_tag_selection_witness:
  "endswith ''adhoc.yml'' ''.yml'' \<and> [''finance''] \<noteq> ([] :: string list) \<and>
   select_jobs_by_tags untagged_world [''finance''] = Inl TypeError \<and>
   handle_job_data untagged_world adhoc_yml = Inr adhoc_job \<and>
   all_tags_in (tags adhoc_job) [''finance''] = Inl TypeError"
proof -
  have w: "(''/p/resources/jobs/finance'', [], [''daily_recon.yml'', ''adhoc.yml''])
             \<in> set (os_walk untagged_world (jobs_dir untagged_world))"
    by (simp add: untagged_world_def example_world_def example_settings_def jobs_dir_def
          os_path_join_def join_step_def)
  have f: "files untagged_world (os_path_join ''/p/resources/jobs/finance'' [''adhoc.yml'']) =
      Some (Doc (YDict [(''name'', YStr ''adhoc''),
        (''runs'', YList [YDict [(''data_assets'', YList [YStr ''way4.doc'']),
                                 (''suite'', YStr ''basic'')]])]))"
    by (simp add: untagged_world_def os_path_join_def join_step_def adhoc_yml_def)
  have h: "handle_job_data untagged_world adhoc_yml = Inr adhoc_job"
    by code_simp
  have s: "select_jobs_by_tags untagged_world [''finance''] = Inl TypeError"
    by code_simp
  show ?thesis
    using untagged_job_breaks_tag_selection [OF w _ _ f, of "[''finance'']"] h s
    by (simp add: endswith_def adhoc_yml_def)
qed

text \<open>
  Claim C2. In the second example tree both job files assemble, \<^verbatim>\<open>daily_recon\<close> has the
  tag \<^verbatim>\<open>nightly\<close> and \<^verbatim>\<open>adhoc\<close> has no tags. The selection by \<^verbatim>\<open>["nightly"]\<close>
  does not return \<^verbatim>\<open>daily_recon\<close>: it raises \<^verbatim>\<open>TypeError\<close> at the untagged job.
\<close>

theorem tag_selection_raises_beside_untagged_job:
  "map (load_job untagged_world) (job_files untagged_world) = map Inr [daily_recon_job, adhoc_job] \<and>
   has_tags [''nightly''] daily_recon_job \<and>
   tags adhoc_job = None \<and>
   select_jobs_by_tags untagged_world [''nightly''] = Inl TypeError"
  by code_simp

subsection \<open>Building the validations\<close>

text \<open>Each loop, run from any state: what it appends to the calls, to the assets of the
  data source and to the validations.\<close>

lemma assets_loop_eq:
  "assets_loop su as (ctx, ds, vs) =
     (ctx @ concat (map (\<lambda>a. suite_calls su) as),
      ds\<lparr>ds_assets := foldl upsert (ds_assets ds) as\<rparr>,
      vs @ map (descriptor (ds_name ds) su) as)"
proof (induction as arbitrary: ctx ds vs)
  case Nil
  show ?case by simp
next
  case (Cons a as)
  show ?case
  proof (cases "map_of (ds_assets ds) (name_DataAsset a)")
    case None
    then show ?thesis
      by (simp add: Cons.IH get_asset_def add_query_asset_def build_batch_request_def
            build_suite_def suite_calls_def descriptor_def upsert_def Let_def)
  next
    case (Some q)
    then show ?thesis
      by (simp add: Cons.IH get_asset_def build_batch_request_def
            build_suite_def suite_calls_def descriptor_def upsert_def Let_def)
  qed
qed

lemma runs_loop_eq:
  "runs_loop rs (ctx, ds, vs) =
     (ctx @ concat (map run_calls rs),
      ds\<lparr>ds_assets := foldl upsert (ds_assets ds) (concat (map data_assets rs))\<rparr>,
      vs @ concat (map (run_descriptors (ds_name ds)) rs))"
proof (induction rs arbitrary: ctx ds vs)
  case Nil
  show ?case by simp
next
  case (Cons r rs)
  show ?case
    by (simp add: assets_loop_eq Cons.IH run_calls_def run_descriptors_def)
qed

lemma jobs_loop_eq:
  "jobs_loop js (ctx, ds, vs) =
     (ctx @ concat (map job_calls js),
      ds\<lparr>ds_assets := foldl upsert (ds_assets ds) (all_assets js)\<rparr>,
      vs @ descriptors (ds_name ds) js)"
proof (induction js arbitrary: ctx ds vs)
  case Nil
  show ?case by (simp add: all_assets_def descriptors_def)
next
  case (Cons j js)
  show ?case
    by (simp add: runs_loop_eq Cons.IH job_calls_def job_descriptors_def job_assets_def
          all_assets_def descriptors_def)
qed

lemma length_descriptors: "length (descriptors dsn js) = asset_count js"
  by (simp add: descriptors_def job_descriptors_def run_descriptors_def asset_count_def
        length_concat comp_def)

lemma map_of_upsert:
  "map_of (upsert as a) n =
     (case map_of as n of
        Some q \<Rightarrow> Some q
      | None \<Rightarrow> if name_DataAsset a = n then Some (query a) else None)"
  by (auto simp: upsert_def map_add_def split: option.splits)

lemma map_of_foldl_upsert:
  "map_of (foldl upsert as xs) n =
     (case map_of as n of
        Some q \<Rightarrow> Some q
      | None \<Rightarrow> map_option query (find (\<lambda>a. name_DataAsset a = n) xs))"
proof (induction xs arbitrary: as)
  case Nil
  show ?case by (simp split: option.splits)
next
  case (Cons x xs)
  show ?case
    by (simp add: Cons.IH map_of_upsert split: option.splits)
qed

text \<open>
  Claim C3. \<^verbatim>\<open>build_validations\<close> turns a single job into a one-element list, and
  returns one descriptor per data asset, in the order job, run, data asset: the batch
  request of that asset with the name of the run's suite. So there are as many descriptors
  as data assets in all runs of all jobs. It never raises: a name the data source holds
  keeps its handle, and a name it lacks gets a handle with the query of the first asset of
  that name. The suite of a run is registered once per data asset.
\<close>

theorem build_validations_nesting_order:
  "(case build_validations ctx ds jobs of
      (ctx', ds', validations) \<Rightarrow>
        validations = descriptors (ds_name ds) (as_list jobs) \<and>
        length validations = asset_count (as_list jobs) \<and>
        ctx' = ctx @ concat (map job_calls (as_list jobs)) \<and>
        ds_name ds' = ds_name ds \<and>
        (\<forall>n. map_of (ds_assets ds') n =
               (case map_of (ds_assets ds) n of
                  Some q \<Rightarrow> Some q
                | None \<Rightarrow> map_option query
                            (find (\<lambda>a. name_DataAsset a = n) (all_assets (as_list jobs)))))) \<and>
   as_list (OneJob j) = [j] \<and> as_list (JobList js) = js"
  by (simp add: build_validations_def jobs_loop_eq length_descriptors map_of_foldl_upsert)

theorem build_validations_nesting_order_witness:
  "snd (snd (build_validations [] example_data_source (OneJob daily_recon_job))) =
     [descriptor (YStr ''staging'') basic_suite doc_asset,
      descriptor (YStr ''staging'') basic_suite acc_asset] \<and>
   ds_assets (fst (snd (build_validations [] example_data_source (OneJob daily_recon_job)))) =
     [(''way4.acc'', ''select 0''), (''way4.doc'', ''select 1'')]"
proof -
  have "ds_assets (fst (snd (build_validations [] example_data_source (OneJob daily_recon_job)))) =
     [(''way4.acc'', ''select 0''), (''way4.doc'', ''select 1'')]"
    by code_simp
  then show ?thesis
    using build_validations_nesting_order
      [where ctx = "[]" and ds = example_data_source and jobs = "OneJob daily_recon_job"]
    by (simp add: split_beta descriptors_def job_descriptors_def run_descriptors_def
          daily_recon_job_def example_data_source_def)
qed

subsection \<open>The entry point\<close>

lemma load_data_source_calls:
  "load_data_source w ctx dsn = Inr (ds, ctx') \<Longrightarrow>
   \<exists>n c. ctx' = ctx @ [Add_or_update_postgres n c]"
  by (auto simp: load_data_source_def split: sum.splits)

lemma load_data_source_cong:
  assumes "settings w' = settings w"
    and "files w' (data_source_path w dsn) = files w (data_source_path w dsn)"
  shows "map_sum id snd (load_data_source w' ctx dsn) = map_sum id snd (load_data_source w ctx dsn)"
proof -
  have "data_source_path w' dsn = data_source_path w dsn"
    using assms(1) by (simp add: data_source_path_def)
  then have "safe_load_open w' (data_source_path w' dsn) = safe_load_open w (data_source_path w dsn)"
    using assms(2) by (simp add: safe_load_open_def)
  then show ?thesis
    by (simp add: load_data_source_def split: sum.splits)
qed

text \<open>
  Claim C7. When neither \<^verbatim>\<open>--job_name\<close> nor \<^verbatim>\<open>--job_tags\<close> is given, the entry point
  raises, so the process ends with a non-zero status. Once the data source is loaded the
  error is "No job name or tags provided" under the \<^verbatim>\<open>ERROR:\<close> wrapper. Nothing was
  resolved or validated by then: the runtime has seen set-up calls only, and the outcome
  is the same in every world with the same settings and data-source file, whatever its
  job, asset and suite files hold.
\<close>

theorem no_selector_raises:
  assumes "\<not> given (job_name a)" and "\<not> given (job_tags a)"
  shows "(\<exists>e. fst (main w a) = Inl (Exception_ERROR e)) \<and>
         exit_status (main w a) = 1 \<and>
         list_all is_setup_call (snd (main w a)) \<and>
         (\<forall>ds ctx'. load_data_source w [Get_context (project_path (settings w)) (env (settings w))]
                        ''staging_postgres'' = Inr (ds, ctx') \<longrightarrow>
            main w a = (Inl (Exception_ERROR Exception_no_job_name_or_tags), ctx')) \<and>
         (\<forall>w'. settings w' = settings w \<and>
                files w' (data_source_path w ''staging_postgres'') =
                  files w (data_source_path w ''staging_postgres'') \<longrightarrow>
            main w' a = main w a)"
proof -
  let ?ctx = "[Get_context (project_path (settings w)) (env (settings w))]"
  let ?l = "\<lambda>w. load_data_source w ?ctx ''staging_postgres''"
  have m: "main w' a =
      (case ?l w' of
         Inl e \<Rightarrow> (Inl (Exception_ERROR e), ?ctx)
       | Inr p \<Rightarrow> (Inl (Exception_ERROR Exception_no_job_name_or_tags), snd p))"
    if "settings w' = settings w" for w'
    using assms that by (simp add: main_def main_try_def Let_def split: sum.splits prod.splits)
  have c: "main w' a = main w a"
    if s: "settings w' = settings w"
      and f: "files w' (data_source_path w ''staging_postgres'') =
              files w (data_source_path w ''staging_postgres'')" for w'
    using load_data_source_cong [OF s f, of ?ctx] m [OF s] m [OF refl]
    by (auto split: sum.splits)
  have "list_all is_setup_call (snd (main w a))"
  proof (cases "?l w")
    case (Inl e)
    then show ?thesis by (simp add: m)
  next
    case (Inr p)
    then obtain n c where "snd p = ?ctx @ [Add_or_update_postgres n c]"
      using load_data_source_calls [of w ?ctx "''staging_postgres''" "fst p" "snd p"] by auto
    with Inr show ?thesis by (simp add: m)
  qed
  moreover have "\<exists>e. fst (main w a) = Inl (Exception_ERROR e)" "exit_status (main w a) = 1"
    by (auto simp: m split: sum.splits)
  moreover have "\<forall>ds ctx'. ?l w = Inr (ds, ctx') \<longrightarrow>
      main w a = (Inl (Exception_ERROR Exception_no_job_name_or_tags), ctx')"
    by (simp add: m)
  ultimately show ?thesis using c by blast
qed

theorem no_selector_raises_witness:
  "\<not> given (job_name no_args) \<and> \<not> given (job_tags no_args) \<and>
   main example_world no_args =
     (Inl (Exception_ERROR Exception_no_job_name_or_tags),
      [Get_context ''/p'' ''dev'',
       Add_or_update_postgres (YStr ''staging'') (YStr ''postgresql://qa@db/stage'')]) \<and>
   exit_status (main example_world no_args) = 1"
proof -
  have l: "load_data_source example_world
      [Get_context (project_path (settings example_world)) (env (settings example_world))]
      ''staging_postgres'' =
    Inr (\<lparr>ds_name = YStr ''staging'', ds_assets = [(''way4.acc'', ''select 0'')]\<rparr>,
         [Get_context ''/p'' ''dev'',
          Add_or_update_postgres (YStr ''staging'') (YStr ''postgresql://qa@db/stage'')])"
    by code_simp
  have g: "\<not> given (job_name no_args)" "\<not> given (job_tags no_args)"
    by (simp_all add: no_args_def)
  show ?thesis
    using no_selector_raises [OF g, of example_world] l g by simp
qed

text \<open>
  Claim C10. When \<^verbatim>\<open>--job_name\<close> is given, the entry point selects by name and never
  looks at \<^verbatim>\<open>--job_tags\<close>. Whatever that flag holds, also nothing, the run is this:
  load the data source; resolve the job named by \<^verbatim>\<open>--job_name\<close> with
  \<^verbatim>\<open>_select_job_by_filename\<close>; register the suites of that job; add and run the
  checkpoint called by the job name over the descriptors of that job. It raises only what
  these steps raise, under the \<^verbatim>\<open>ERROR:\<close> wrapper: a failure to load the data source or to
  resolve the job, or a checkpoint that does not succeed. Giving both flags is no error.
\<close>

theorem name_takes_precedence_over_tags:
  assumes "given (job_name a)"
  shows "main w (a\<lparr>job_tags := t\<rparr>) = main w a \<and>
         main w (a\<lparr>job_tags := t\<rparr>) =
           (case load_data_source w
                   [Get_context (project_path (settings w)) (env (settings w))]
                   ''staging_postgres'' of
              Inl e \<Rightarrow>
                (Inl (Exception_ERROR e),
                 [Get_context (project_path (settings w)) (env (settings w))])
            | Inr (ds, ctx') \<Rightarrow>
                (case select_job_by_filename w (str_of (job_name a)) of
                   Inl e \<Rightarrow> (Inl (Exception_ERROR e), ctx')
                 | Inr job \<Rightarrow>
                     (if checkpoint_success w then Inr ()
                      else Inl (Exception_ERROR Exception_expectations_not_met),
                      ctx' @ job_calls job @
                        [Add_or_update_checkpoint (str_of (job_name a))
                           (job_descriptors (ds_name ds) job)
                           [StoreValidationResultAction, StoreEvaluationParametersAction,
                            UpdateDataDocsAction,
                            MicrosoftTeamsNotificationAction ''failure''
                              (if given (webhook a) then str_of (webhook a)
                               else microsoft_teams_webhook (settings w))],
                         Checkpoint_run (str_of (job_name a))])))"
proof -
  have bv: "build_validations ctx ds (OneJob job) =
     (ctx @ job_calls job,
      ds\<lparr>ds_assets := foldl upsert (ds_assets ds) (job_assets job)\<rparr>,
      job_descriptors (ds_name ds) job)" for ctx ds job
    by (simp add: build_validations_def jobs_loop_eq all_assets_def descriptors_def)
  have run_selected_by_name: "run_selected w ctx ds (Str n) cp wh =
     (case select_job_by_filename w n of
        Inl e \<Rightarrow> (Inl e, ctx)
      | Inr job \<Rightarrow>
          (if checkpoint_success w then Inr () else Inl Exception_expectations_not_met,
           ctx @ job_calls job @
             [Add_or_update_checkpoint cp (job_descriptors (ds_name ds) job)
                [StoreValidationResultAction, StoreEvaluationParametersAction,
                 UpdateDataDocsAction, MicrosoftTeamsNotificationAction ''failure'' wh],
              Checkpoint_run cp]))" for ctx ds n cp wh
    by (simp add: run_selected_def bv run_checkpoint_def
          build_teams_noti_action_def split: sum.splits)
  have inv: "main w (a\<lparr>job_tags := t\<rparr>) = main w a"
    using assms by (simp add: main_def main_try_def Let_def split: sum.splits prod.splits)
  have "main w a =
           (case load_data_source w
                   [Get_context (project_path (settings w)) (env (settings w))]
                   ''staging_postgres'' of
              Inl e \<Rightarrow>
                (Inl (Exception_ERROR e),
                 [Get_context (project_path (settings w)) (env (settings w))])
            | Inr (ds, ctx') \<Rightarrow>
                (case select_job_by_filename w (str_of (job_name a)) of
                   Inl e \<Rightarrow> (Inl (Exception_ERROR e), ctx')
                 | Inr job \<Rightarrow>
                     (if checkpoint_success w then Inr ()
                      else Inl (Exception_ERROR Exception_expectations_not_met),
                      ctx' @ job_calls job @
                        [Add_or_update_checkpoint (str_of (job_name a))
                           (job_descriptors (ds_name ds) job)
                           [StoreValidationResultAction, StoreEvaluationParametersAction,
                            UpdateDataDocsAction,
                            MicrosoftTeamsNotificationAction ''failure''
                              (if given (webhook a) then str_of (webhook a)
                               else microsoft_teams_webhook (settings w))],
                         Checkpoint_run (str_of (job_name a))])))"
    using assms
    by (simp add: main_def main_try_def Let_def run_selected_by_name
          split: sum.splits prod.splits)
  with inv show ?thesis by simp
qed

theorem name_takes_precedence_over_tags_witness:
  "given (job_name name_args) \<and>
   given (job_tags (name_args\<lparr>job_tags := Some ''eu''\<rparr>)) \<and>
   select_job_by_filename example_world ''finance.daily_recon'' = Inr daily_recon_job \<and>
   main example_world (name_args\<lparr>job_tags := Some ''eu''\<rparr>) =
     (Inr (),
      [Get_context ''/p'' ''dev'',
       Add_or_update_postgres (YStr ''staging'') (YStr ''postgresql://qa@db/stage'')]
      @ suite_calls basic_suite @ suite_calls basic_suite
      @ [Add_or_update_checkpoint ''finance.daily_recon''
           [descriptor (YStr ''staging'') basic_suite doc_asset,
            descriptor (YStr ''staging'') basic_suite acc_asset]
           [StoreValidationResultAction, StoreEvaluationParametersAction,
            UpdateDataDocsAction, MicrosoftTeamsNotificationAction ''failure'' ''hook''],
         Checkpoint_run ''finance.daily_recon'']) \<and>
   exit_status (main example_world (name_args\<lparr>job_tags := Some ''eu''\<rparr>)) = 0 \<and>
   fst (main example_world (no_args\<lparr>job_tags := Some ''eu''\<rparr>)) =
     Inl (Exception_ERROR (ValueError_no_job_for_tags [''eu'']))"
proof -
  have g: "given (job_name name_args)" "\<not> given (webhook name_args)"
    "str_of (job_name name_args) = ''finance.daily_recon''"
    by (simp_all add: name_args_def no_args_def)
  have l: "load_data_source example_world
      [Get_context (project_path (settings example_world)) (env (settings example_world))]
      ''staging_postgres'' =
    Inr (\<lparr>ds_name = YStr ''staging'', ds_assets = [(''way4.acc'', ''select 0'')]\<rparr>,
         [Get_context ''/p'' ''dev'',
          Add_or_update_postgres (YStr ''staging'') (YStr ''postgresql://qa@db/stage'')])"
    by code_simp
  have j: "select_job_by_filename example_world ''finance.daily_recon'' = Inr daily_recon_job"
    by code_simp
  have c: "checkpoint_success example_world"
    "microsoft_teams_webhook (settings example_world) = ''hook''"
    by (simp_all add: example_world_def example_settings_def)
  have t: "fst (main example_world (no_args\<lparr>job_tags := Some ''eu''\<rparr>)) =
     Inl (Exception_ERROR (ValueError_no_job_for_tags [''eu'']))"
    by code_simp
  have m: "main example_world (name_args\<lparr>job_tags := Some ''eu''\<rparr>) =
     (Inr (),
      [Get_context ''/p'' ''dev'',
       Add_or_update_postgres (YStr ''staging'') (YStr ''postgresql://qa@db/stage'')]
      @ suite_calls basic_suite @ suite_calls basic_suite
      @ [Add_or_update_checkpoint ''finance.daily_recon''
           [descriptor (YStr ''staging'') basic_suite doc_asset,
            descriptor (YStr ''staging'') basic_suite acc_asset]
           [StoreValidationResultAction, StoreEvaluationParametersAction,
            UpdateDataDocsAction, MicrosoftTeamsNotificationAction ''failure'' ''hook''],
         Checkpoint_run ''finance.daily_recon''])"
    using name_takes_precedence_over_tags [OF g(1), of example_world "Some ''eu''", THEN conjunct2]
    by (simp add: g l j c job_calls_def run_calls_def job_descriptors_def run_descriptors_def
          daily_recon_job_def)
  show ?thesis
    unfolding m using g j t by simp
qed

end
